theory Spec2Isabelle
  imports Complex_Main "HOL-Library.Char_ord" "HOL-Library.List_Lexorder"
begin

section \<open>Cloud comparison engine (mcp_servers/comparison_server.py)\<close>

text \<open>
  The engine is the class \<open>CloudComparisonEngine\<close> together with the computation at the
  head of the tool \<open>generate_migration_recommendation\<close>.

  Conventions of the embedding.
  \<^item> A Python number (a \<open>float\<close>, or an \<open>int\<close> that meets a float) is a \<open>real\<close>:
    arithmetic is exact, rounding of IEEE doubles, infinities and NaN are outside the model.
  \<^item> A Python \<open>str\<close> is a \<open>string\<close> whose characters are code points below 256, so that
    \<open>e\<close> with acute accent is the single character \<open>0xE9\<close>.
  \<^item> A dictionary with a fixed set of keys is a record; a key that may be absent is an
    \<open>option\<close> field, and \<open>d.get(k, v)\<close> is a case distinction on it. The two-key
    dictionaries \<open>{'aws': x, 'gcp': y}\<close> are the record \<open>by_provider\<close>.
  \<^item> A raised exception is the left summand of the result.
  \<^item> A method name loses its leading underscore, which Isabelle does not allow.
\<close>

subsection \<open>Data\<close>

datatype py_error = ZeroDivisionError | KeyError

record 'a by_provider =
  aws :: 'a
  gcp :: 'a

text \<open>\<open>self.weights\<close>: one number for each of the five criteria.\<close>

record criteria =
  cost :: real
  performance :: real
  scalability :: real
  reliability :: real
  maintenance :: real

text \<open>One provider's entry under \<open>'scores'\<close>: the five criteria and \<open>'final'\<close>.\<close>

record score_card = criteria +
  final :: real

record characteristics =
  performance_multiplier :: real
  scalability_score :: real
  reliability_score :: real
  maintenance_score :: real
  global_presence :: real
  service_maturity :: real

definition weights :: criteria where
  "weights = \<lparr>cost = 0.35, performance = 0.25, scalability = 0.20,
              reliability = 0.15, maintenance = 0.05\<rparr>"

definition provider_characteristics :: "characteristics by_provider" where
  "provider_characteristics =
     \<lparr>aws = \<lparr>performance_multiplier = 1.0, scalability_score = 9.5,
              reliability_score = 9.8, maintenance_score = 8.5,
              global_presence = 9.9, service_maturity = 9.8\<rparr>,
      gcp = \<lparr>performance_multiplier = 1.05, scalability_score = 9.3,
              reliability_score = 9.6, maintenance_score = 9.2,
              global_presence = 8.8, service_maturity = 8.9\<rparr>\<rparr>"

subsection \<open>Criterion scores\<close>

text \<open>Python's \<open>x / y\<close> on numbers: a zero divisor raises.\<close>

definition py_truediv :: "real \<Rightarrow> real \<Rightarrow> py_error + real" where
  "py_truediv x y = (if y = 0 then Inl ZeroDivisionError else Inr (x / y))"

text \<open>
  \<open>_calculate_cost_score\<close>. Both divisions are reached only with \<open>total_cost \<noteq> 0\<close>,
  so the method cannot raise and the model returns the dictionary itself.
\<close>

definition calculate_cost_score :: "real \<Rightarrow> real \<Rightarrow> real by_provider" where
  "calculate_cost_score aws_cost gcp_cost =
     (if aws_cost = 0 \<and> gcp_cost = 0 then \<lparr>aws = 5.0, gcp = 5.0\<rparr>
      else let total_cost = aws_cost + gcp_cost in
        if total_cost = 0 then \<lparr>aws = 5.0, gcp = 5.0\<rparr>
        else let aws_score = (gcp_cost / total_cost) * 10;
                 gcp_score = (aws_cost / total_cost) * 10
             in \<lparr>aws = aws_score, gcp = gcp_score\<rparr>)"

text \<open>\<open>d.get(k, v)\<close> on an entry that may be absent.\<close>

definition get_or :: "'a option \<Rightarrow> 'a \<Rightarrow> 'a" where
  "get_or entry v = (case entry of None \<Rightarrow> v | Some x \<Rightarrow> x)"

text \<open>
  \<open>workload_requirements\<close> has string values and is a map. The two provider names are
  parameters the method never reads.
\<close>

definition calculate_performance_score ::
  "string \<Rightarrow> string \<Rightarrow> (string \<rightharpoonup> string) \<Rightarrow> real by_provider" where
  "calculate_performance_score provider1 provider2 workload_requirements =
     (let workload_type = get_or (workload_requirements ''type'') ''general'' in
      if workload_type = ''compute_intensive'' then \<lparr>aws = 8.5, gcp = 9.0\<rparr>
      else if workload_type = ''data_intensive'' then \<lparr>aws = 9.2, gcp = 8.8\<rparr>
      else \<lparr>aws = 8.8, gcp = 8.9\<rparr>)"

definition calculate_scalability_score :: "string \<Rightarrow> string \<Rightarrow> real by_provider" where
  "calculate_scalability_score provider1 provider2 =
     \<lparr>aws = scalability_score (aws provider_characteristics),
      gcp = scalability_score (gcp provider_characteristics)\<rparr>"

definition calculate_reliability_score :: "string \<Rightarrow> string \<Rightarrow> real by_provider" where
  "calculate_reliability_score provider1 provider2 =
     \<lparr>aws = reliability_score (aws provider_characteristics),
      gcp = reliability_score (gcp provider_characteristics)\<rparr>"

definition calculate_maintenance_score :: "string \<Rightarrow> string \<Rightarrow> real by_provider" where
  "calculate_maintenance_score provider1 provider2 =
     \<lparr>aws = maintenance_score (aws provider_characteristics),
      gcp = maintenance_score (gcp provider_characteristics)\<rparr>"

subsection \<open>Primary reasons\<close>

text \<open>\<open>d[k]\<close> on a two-key dictionary: any other key raises \<open>KeyError\<close>.\<close>

definition subscript :: "'a by_provider \<Rightarrow> string \<Rightarrow> py_error + 'a" where
  "subscript d k =
     (if k = ''aws'' then Inr (aws d) else if k = ''gcp'' then Inr (gcp d) else Inl KeyError)"

text \<open>The three reason strings; the first one ends in \<open>benef\<close>, i with acute accent, \<open>cio\<close>.\<close>

definition reason_cost :: string where
  "reason_cost = ''Melhor custo-benef'' @ [CHR 0xED] @ ''cio''"

definition reason_performance :: string where
  "reason_performance = ''Superior performance''"

definition reason_scalability :: string where
  "reason_scalability = ''Melhor escalabilidade''"

text \<open>
  \<open>_get_primary_reasons\<close>. The only operation that can raise is a subscript, and every
  subscript raises \<open>KeyError\<close>; the first one is \<open>cost_score[winner]\<close>. The
  parameter \<open>scalability_score\<close> carries a prime, the plain name being a key of the
  characteristics table.
\<close>

definition get_primary_reasons ::
  "string \<Rightarrow> real by_provider \<Rightarrow> real by_provider \<Rightarrow> real by_provider
     \<Rightarrow> py_error + string list" where
  "get_primary_reasons winner cost_score performance_score scalability_score' =
     (let loser = (if winner = ''gcp'' then ''aws'' else ''gcp'') in
      case (subscript cost_score winner, subscript cost_score loser,
            subscript performance_score winner, subscript performance_score loser,
            subscript scalability_score' winner, subscript scalability_score' loser) of
        (Inr cw, Inr cl, Inr pw, Inr pl, Inr sw, Inr sl) \<Rightarrow>
          (let reasons0 = [];
               reasons1 = (if cw > cl then reasons0 @ [reason_cost] else reasons0);
               reasons2 = (if pw > pl then reasons1 @ [reason_performance] else reasons1);
               reasons3 = (if sw > sl then reasons2 @ [reason_scalability] else reasons2)
           in Inr (take 3 reasons3))
      | _ \<Rightarrow> Inl KeyError)"

subsection \<open>Compute comparison\<close>

text \<open>
  The input dictionaries come from parsed JSON. The model keeps the keys the engine reads,
  typed as the pricing servers produce them: a number for a price, a string for a name.
\<close>

record instance_data =
  price_per_month :: "real option"
  instance_type :: "string option"
  machine_type :: "string option"

record recommendation =
  winner :: string
  confidence :: real

record compute_recommendation = recommendation +
  primary_reasons :: "string list"

text \<open>The keys that the compute and the storage result have in common.\<close>

record 'r comparison =
  comparison_type :: string
  cost_difference :: real
  cost_savings_provider :: string
  cost_savings_percentage :: real
  recommendation :: 'r

record compute_comparison = "compute_recommendation comparison" +
  aws_instance :: string
  gcp_instance :: string
  aws_cost :: real
  gcp_cost :: real
  scores :: "score_card by_provider"

text \<open>
  \<open>compare_compute_instances\<close>. The result dictionary is built entry by entry, and the
  division under \<open>'cost_savings_percentage'\<close> is evaluated before the call of
  \<open>_get_primary_reasons\<close>.
\<close>

definition compare_compute_instances ::
  "instance_data \<Rightarrow> instance_data \<Rightarrow> (string \<rightharpoonup> string) \<Rightarrow> py_error + compute_comparison" where
  "compare_compute_instances aws_data gcp_data workload_requirements =
     (let aws_monthly_cost = get_or (price_per_month aws_data) 0;
          gcp_monthly_cost = get_or (price_per_month gcp_data) 0;
          cost_score = calculate_cost_score aws_monthly_cost gcp_monthly_cost;
          performance_score = calculate_performance_score ''aws'' ''gcp'' workload_requirements;
          scalability_score = calculate_scalability_score ''aws'' ''gcp'';
          reliability_score = calculate_reliability_score ''aws'' ''gcp'';
          maintenance_score = calculate_maintenance_score ''aws'' ''gcp'';
          aws_final_score =
            aws cost_score * cost weights +
            aws performance_score * performance weights +
            aws scalability_score * scalability weights +
            aws reliability_score * reliability weights +
            aws maintenance_score * maintenance weights;
          gcp_final_score =
            gcp cost_score * cost weights +
            gcp performance_score * performance weights +
            gcp scalability_score * scalability weights +
            gcp reliability_score * reliability weights +
            gcp maintenance_score * maintenance weights;
          winner = (if aws_final_score > gcp_final_score then ''aws'' else ''gcp'')
      in case py_truediv (aws_monthly_cost - gcp_monthly_cost)
                (max aws_monthly_cost gcp_monthly_cost) of
           Inl e \<Rightarrow> Inl e
         | Inr q \<Rightarrow>
            (case get_primary_reasons winner cost_score performance_score scalability_score of
               Inl e \<Rightarrow> Inl e
             | Inr reasons \<Rightarrow> Inr
                \<lparr>comparison_type = ''compute_instances'',
                 cost_difference = \<bar>aws_monthly_cost - gcp_monthly_cost\<bar>,
                 cost_savings_provider =
                   (if aws_monthly_cost < gcp_monthly_cost then ''aws'' else ''gcp''),
                 cost_savings_percentage = \<bar>q\<bar> * 100,
                 recommendation =
                   \<lparr>winner = winner,
                    confidence = \<bar>aws_final_score - gcp_final_score\<bar> / 10,
                    primary_reasons = reasons\<rparr>,
                 aws_instance = get_or (instance_type aws_data) ''N/A'',
                 gcp_instance = get_or (machine_type gcp_data) ''N/A'',
                 aws_cost = aws_monthly_cost,
                 gcp_cost = gcp_monthly_cost,
                 scores =
                   \<lparr>aws = \<lparr>cost = aws cost_score,
                            performance = aws performance_score,
                            scalability = aws scalability_score,
                            reliability = aws reliability_score,
                            maintenance = aws maintenance_score,
                            final = aws_final_score\<rparr>,
                    gcp = \<lparr>cost = gcp cost_score,
                            performance = gcp performance_score,
                            scalability = gcp scalability_score,
                            reliability = gcp reliability_score,
                            maintenance = gcp maintenance_score,
                            final = gcp_final_score\<rparr>\<rparr>\<rparr>))"


subsection \<open>Storage comparison\<close>

text \<open>
  A storage descriptor is a dictionary from strings to strings, and so is a map; the empty
  dictionary is the empty map.
\<close>

definition storage_characteristics :: "string \<rightharpoonup> (string \<rightharpoonup> string)" where
  "storage_characteristics = map_of
     [(''s3_standard'', map_of [(''durability'', ''99.999999999%''),
         (''availability'', ''99.99%''), (''use_case'', ''Acesso frequente'')]),
      (''s3_ia'', map_of [(''durability'', ''99.999999999%''),
         (''availability'', ''99.9%''), (''use_case'', ''Acesso infrequente'')]),
      (''s3_glacier'', map_of [(''durability'', ''99.999999999%''),
         (''availability'', ''N/A''), (''use_case'', ''Arquivamento'')]),
      (''standard'', map_of [(''durability'', ''99.999999999%''),
         (''availability'', ''99.95%''), (''use_case'', ''Acesso frequente'')]),
      (''nearline'', map_of [(''durability'', ''99.999999999%''),
         (''availability'', ''99.95%''), (''use_case'', ''Backup mensal'')]),
      (''coldline'', map_of [(''durability'', ''99.999999999%''),
         (''availability'', ''99.95%''), (''use_case'', ''Arquivamento'')]),
      (''archive'', map_of [(''durability'', ''99.999999999%''),
         (''availability'', ''99.95%''), (''use_case'', ''Arquivamento longo prazo'')])]"

record characteristics_comparison =
  durability :: string
  availability :: string

record storage_analysis_result =
  aws_characteristics :: "string \<rightharpoonup> string"
  gcp_characteristics :: "string \<rightharpoonup> string"
  comparison :: characteristics_comparison

text \<open>
  \<open>_analyze_storage_characteristics\<close>. Python compares two \<open>str\<close> values code point by
  code point, a proper prefix being the smaller; that is the order of \<open>string\<close> here.
  \<open>aws_char.get('durability')\<close> is \<open>None\<close> for an absent key, so the durability test
  compares the two optional entries.
\<close>

definition analyze_storage_characteristics :: "string \<Rightarrow> string \<Rightarrow> storage_analysis_result" where
  "analyze_storage_characteristics aws_type gcp_type =
     (let aws_char = get_or (storage_characteristics aws_type) Map.empty;
          gcp_char = get_or (storage_characteristics gcp_type) Map.empty
      in \<lparr>aws_characteristics = aws_char,
          gcp_characteristics = gcp_char,
          comparison =
            \<lparr>durability =
               (if aws_char ''durability'' = gcp_char ''durability''
                then ''Equivalente'' else ''Diferente''),
             availability =
               (if get_or (aws_char ''availability'') ''0%''
                     > get_or (gcp_char ''availability'') ''0%''
                then ''AWS superior'' else ''GCP superior'')\<rparr>\<rparr>)"

record storage_data =
  price_per_gb_month :: "real option"
  storage_type :: "string option"

record storage_comparison = "recommendation comparison" +
  aws_storage :: string
  gcp_storage :: string
  aws_cost_per_gb :: real
  gcp_cost_per_gb :: real
  storage_analysis :: storage_analysis_result

text \<open>
  \<open>compare_storage_options\<close>. The entry \<open>'reasoning'\<close> of the recommendation, a sentence
  that prints the percentage with one decimal, is left out of the result.
\<close>

definition compare_storage_options ::
  "storage_data \<Rightarrow> storage_data \<Rightarrow> py_error + storage_comparison" where
  "compare_storage_options aws_data gcp_data =
     (let aws_cost = get_or (price_per_gb_month aws_data) 0;
          gcp_cost = get_or (price_per_gb_month gcp_data) 0;
          cost_difference = \<bar>aws_cost - gcp_cost\<bar>;
          cost_savings_provider = (if aws_cost < gcp_cost then ''aws'' else ''gcp'')
      in case py_truediv cost_difference (max aws_cost gcp_cost) of
           Inl e \<Rightarrow> Inl e
         | Inr q \<Rightarrow>
            (let cost_savings_percentage = q * 100;
                 storage_analysis = analyze_storage_characteristics
                   (get_or (storage_type aws_data) [])
                   (get_or (storage_type gcp_data) [])
             in Inr
                \<lparr>comparison_type = ''storage'',
                 cost_difference = cost_difference,
                 cost_savings_provider = cost_savings_provider,
                 cost_savings_percentage = cost_savings_percentage,
                 recommendation =
                   \<lparr>winner = cost_savings_provider,
                    confidence = min (cost_savings_percentage / 20) 1.0\<rparr>,
                 aws_storage = get_or (storage_type aws_data) ''N/A'',
                 gcp_storage = get_or (storage_type gcp_data) ''N/A'',
                 aws_cost_per_gb = aws_cost,
                 gcp_cost_per_gb = gcp_cost,
                 storage_analysis = storage_analysis\<rparr>))"

subsection \<open>Total cost of ownership\<close>

record monthly_breakdown =
  compute_monthly :: real
  storage_monthly :: real
  additional_monthly :: real
  operational_monthly :: real
  total_monthly :: real

record tco_result =
  time_horizon_months :: int
  aws_tco :: real
  gcp_tco :: real
  savings :: real
  savings_provider :: string
  savings_percentage :: real
  breakdown :: "monthly_breakdown by_provider"

text \<open>
  \<open>calculate_tco\<close>. The three cost dictionaries map a provider name to a number; the
  horizon is a Python \<open>int\<close>.
\<close>

definition calculate_tco ::
  "(string \<rightharpoonup> real) \<Rightarrow> (string \<rightharpoonup> real) \<Rightarrow> (string \<rightharpoonup> real) \<Rightarrow> int
     \<Rightarrow> py_error + tco_result" where
  "calculate_tco compute_costs storage_costs additional_services time_horizon_months' =
     (let aws_compute_monthly = get_or (compute_costs ''aws'') 0;
          gcp_compute_monthly = get_or (compute_costs ''gcp'') 0;
          aws_storage_monthly = get_or (storage_costs ''aws'') 0;
          gcp_storage_monthly = get_or (storage_costs ''gcp'') 0;
          aws_additional_monthly = get_or (additional_services ''aws'') 0;
          gcp_additional_monthly = get_or (additional_services ''gcp'') 0;
          aws_operational_monthly = (aws_compute_monthly + aws_storage_monthly) * 0.15;
          gcp_operational_monthly = (gcp_compute_monthly + gcp_storage_monthly) * 0.12;
          aws_monthly_total = aws_compute_monthly + aws_storage_monthly
                                + aws_additional_monthly + aws_operational_monthly;
          gcp_monthly_total = gcp_compute_monthly + gcp_storage_monthly
                                + gcp_additional_monthly + gcp_operational_monthly;
          aws_tco = aws_monthly_total * of_int time_horizon_months';
          gcp_tco = gcp_monthly_total * of_int time_horizon_months';
          savings = \<bar>aws_tco - gcp_tco\<bar>;
          savings_provider = (if aws_tco < gcp_tco then ''aws'' else ''gcp'')
      in case py_truediv savings (max aws_tco gcp_tco) of
           Inl e \<Rightarrow> Inl e
         | Inr q \<Rightarrow>
            (let savings_percentage = q * 100
             in Inr
                \<lparr>time_horizon_months = time_horizon_months',
                 aws_tco = aws_tco,
                 gcp_tco = gcp_tco,
                 savings = savings,
                 savings_provider = savings_provider,
                 savings_percentage = savings_percentage,
                 breakdown =
                   \<lparr>aws = \<lparr>compute_monthly = aws_compute_monthly,
                            storage_monthly = aws_storage_monthly,
                            additional_monthly = aws_additional_monthly,
                            operational_monthly = aws_operational_monthly,
                            total_monthly = aws_monthly_total\<rparr>,
                    gcp = \<lparr>compute_monthly = gcp_compute_monthly,
                            storage_monthly = gcp_storage_monthly,
                            additional_monthly = gcp_additional_monthly,
                            operational_monthly = gcp_operational_monthly,
                            total_monthly = gcp_monthly_total\<rparr>\<rparr>\<rparr>))"

subsection \<open>Migration estimate\<close>

text \<open>
  \<open>str.isspace\<close> on a code point below 256: tab to carriage return, the four separators
  \<open>0x1C\<close> to \<open>0x1F\<close>, the space, next line \<open>0x85\<close> and the no-break space \<open>0xA0\<close>.
\<close>

definition isspace :: "char \<Rightarrow> bool" where
  "isspace c = (of_char c \<in> {9, 10, 11, 12, 13, 28, 29, 30, 31, 32, 133, 160 :: nat})"

text \<open>
  \<open>str.split()\<close> without arguments: the maximal runs of characters that are not
  whitespace, in order. The first argument is the word being read.
\<close>

fun split_from :: "string \<Rightarrow> string \<Rightarrow> string list" where
  "split_from word [] = (if word = [] then [] else [word])"
| "split_from word (c # cs) =
     (if isspace c then (if word = [] then split_from [] cs else word # split_from [] cs)
      else split_from (word @ [c]) cs)"

definition split :: "string \<Rightarrow> string list" where
  "split s = split_from [] s"

definition Baixa :: string where
  "Baixa = ''Baixa''"

definition Media :: string where
  "Media = ''M'' @ [CHR 0xE9] @ ''dia''"

definition Alta :: string where
  "Alta = ''Alta''"

definition Medio :: string where
  "Medio = ''M'' @ [CHR 0xE9] @ ''dio''"

definition budget_multipliers :: "string \<rightharpoonup> real" where
  "budget_multipliers = map_of [(''tight'', 0.7), (''moderate'', 1.0), (''flexible'', 1.3)]"

record migration_estimate =
  complexity_score :: real
  complexity_level :: string
  migration_time :: string
  effort_level :: string
  base_cost :: real
  estimated_cost :: real

text \<open>
  \<open>generate_migration_recommendation\<close>, up to the point where the report is printed: the
  model returns the local variables that the report shows. The two provider arguments
  only select names and paragraphs of the report and are not parameters here.
\<close>

definition generate_migration_recommendation :: "string \<Rightarrow> string \<Rightarrow> migration_estimate" where
  "generate_migration_recommendation workload_description budget_constraints =
     (let complexity_score = real (length (split workload_description)) / 10;
          complexity_level = (if complexity_score < 2 then Baixa
                              else if complexity_score < 5 then Media else Alta);
          (migration_time, effort_level) =
            (if complexity_level = Baixa then (''2-4 semanas'', ''Baixo'')
             else if complexity_level = Media then (''1-3 meses'', Medio)
             else (''3-6 meses'', ''Alto''));
          base_cost = (if complexity_level = Baixa then 5000
                       else if complexity_level = Media then 15000 else 35000);
          estimated_cost = base_cost * get_or (budget_multipliers budget_constraints) 1.0
      in \<lparr>complexity_score = complexity_score,
          complexity_level = complexity_level,
          migration_time = migration_time,
          effort_level = effort_level,
          base_cost = base_cost,
          estimated_cost = estimated_cost\<rparr>)"

subsection \<open>Score range\<close>

text \<open>The range the specification gives to every score: the six entries of a card lie in [0, 10].\<close>

definition score_card_bounded :: "score_card \<Rightarrow> bool" where
  "score_card_bounded c =
     (\<forall>x \<in> {cost c, performance c, scalability c, reliability c, maintenance c, final c}.
        0 \<le> x \<and> x \<le> 10)"

section \<open>Properties\<close>

subsection \<open>Auxiliary facts\<close>

lemma weights_simps:
  "cost weights = 0.35" "performance weights = 0.25" "scalability weights = 0.20"
  "reliability weights = 0.15" "maintenance weights = 0.05"
  by (simp_all add: weights_def)

lemma fixed_scores:
  "calculate_scalability_score p q = \<lparr>aws = 9.5, gcp = 9.3\<rparr>"
  "calculate_reliability_score p q = \<lparr>aws = 9.8, gcp = 9.6\<rparr>"
  "calculate_maintenance_score p q = \<lparr>aws = 8.5, gcp = 9.2\<rparr>"
  by (simp_all add: calculate_scalability_score_def calculate_reliability_score_def
        calculate_maintenance_score_def provider_characteristics_def)

lemma get_primary_reasons_aws:
  "get_primary_reasons ''aws'' cs ps ss =
     Inr ((if aws cs > gcp cs then [reason_cost] else []) @
          (if aws ps > gcp ps then [reason_performance] else []) @
          (if aws ss > gcp ss then [reason_scalability] else []))"
  by (simp add: get_primary_reasons_def subscript_def Let_def)

lemma get_primary_reasons_gcp:
  "get_primary_reasons ''gcp'' cs ps ss =
     Inr ((if gcp cs > aws cs then [reason_cost] else []) @
          (if gcp ps > aws ps then [reason_performance] else []) @
          (if gcp ss > aws ss then [reason_scalability] else []))"
  by (simp add: get_primary_reasons_def subscript_def Let_def)

text \<open>
  With a non-zero larger cost the compute comparison returns, and this is its result up to
  the list of reasons.
\<close>

lemma compare_compute_instances_result:
  assumes nz: "max (get_or (price_per_month aws_data) 0) (get_or (price_per_month gcp_data) 0) \<noteq> 0"
  shows "\<exists>reasons. compare_compute_instances aws_data gcp_data wr = Inr
     (let a = get_or (price_per_month aws_data) 0;
          g = get_or (price_per_month gcp_data) 0;
          cs = calculate_cost_score a g;
          ps = calculate_performance_score ''aws'' ''gcp'' wr;
          fa = aws cs * 0.35 + aws ps * 0.25 + 9.5 * 0.20 + 9.8 * 0.15 + 8.5 * 0.05;
          fg = gcp cs * 0.35 + gcp ps * 0.25 + 9.3 * 0.20 + 9.6 * 0.15 + 9.2 * 0.05
      in \<lparr>comparison_type = ''compute_instances'',
          cost_difference = \<bar>a - g\<bar>,
          cost_savings_provider = (if a < g then ''aws'' else ''gcp''),
          cost_savings_percentage = \<bar>(a - g) / max a g\<bar> * 100,
          recommendation =
            \<lparr>winner = (if fa > fg then ''aws'' else ''gcp''),
             confidence = \<bar>fa - fg\<bar> / 10,
             primary_reasons = reasons\<rparr>,
          aws_instance = get_or (instance_type aws_data) ''N/A'',
          gcp_instance = get_or (machine_type gcp_data) ''N/A'',
          aws_cost = a,
          gcp_cost = g,
          scores =
            \<lparr>aws = \<lparr>cost = aws cs, performance = aws ps, scalability = 9.5,
                     reliability = 9.8, maintenance = 8.5, final = fa\<rparr>,
             gcp = \<lparr>cost = gcp cs, performance = gcp ps, scalability = 9.3,
                     reliability = 9.6, maintenance = 9.2, final = fg\<rparr>\<rparr>\<rparr>)"
  using nz
  by (auto simp: compare_compute_instances_def Let_def py_truediv_def fixed_scores
        weights_simps get_primary_reasons_aws get_primary_reasons_gcp)

lemma scale10:
  fixes x :: real
  assumes "0 \<le> x" "x \<le> 1"
  shows "0 \<le> x * 10" "x * 10 \<le> 10"
  using assms by simp_all

lemma cost_score_bounds:
  assumes "0 \<le> a" "0 \<le> g"
  shows "0 \<le> aws (calculate_cost_score a g) \<and> aws (calculate_cost_score a g) \<le> 10 \<and>
         0 \<le> gcp (calculate_cost_score a g) \<and> gcp (calculate_cost_score a g) \<le> 10"
proof (cases "a + g = 0")
  case True
  with assms have "a = 0" "g = 0" by linarith+
  then show ?thesis by (simp add: calculate_cost_score_def)
next
  case False
  with assms have pos: "0 < a + g" by linarith
  have s: "calculate_cost_score a g = \<lparr>aws = (g / (a + g)) * 10, gcp = (a / (a + g)) * 10\<rparr>"
    using False by (auto simp: calculate_cost_score_def Let_def)
  have sa: "aws (calculate_cost_score a g) = (g / (a + g)) * 10"
    and sg: "gcp (calculate_cost_score a g) = (a / (a + g)) * 10"
    unfolding s by simp_all
  have q: "0 \<le> g / (a + g)" "g / (a + g) \<le> 1" "0 \<le> a / (a + g)" "a / (a + g) \<le> 1"
    using assms pos by (simp_all add: divide_le_eq_1)
  show ?thesis
    unfolding sa sg using scale10 [OF q(1) q(2)] scale10 [OF q(3) q(4)] by blast
qed

lemma performance_score_bounds:
  "0 \<le> aws (calculate_performance_score p q wr) \<and> aws (calculate_performance_score p q wr) \<le> 10 \<and>
   0 \<le> gcp (calculate_performance_score p q wr) \<and> gcp (calculate_performance_score p q wr) \<le> 10"
  by (simp add: calculate_performance_score_def Let_def)

text \<open>The storage comparison: its result, and when the two comparisons raise.\<close>

lemma compare_storage_options_result:
  assumes nz: "max (get_or (price_per_gb_month aws_data) 0) (get_or (price_per_gb_month gcp_data) 0) \<noteq> 0"
  shows "compare_storage_options aws_data gcp_data = Inr
     (let a = get_or (price_per_gb_month aws_data) 0;
          g = get_or (price_per_gb_month gcp_data) 0;
          pct = \<bar>a - g\<bar> / max a g * 100
      in \<lparr>comparison_type = ''storage'',
          cost_difference = \<bar>a - g\<bar>,
          cost_savings_provider = (if a < g then ''aws'' else ''gcp''),
          cost_savings_percentage = pct,
          recommendation =
            \<lparr>winner = (if a < g then ''aws'' else ''gcp''),
             confidence = min (pct / 20) 1\<rparr>,
          aws_storage = get_or (storage_type aws_data) ''N/A'',
          gcp_storage = get_or (storage_type gcp_data) ''N/A'',
          aws_cost_per_gb = a,
          gcp_cost_per_gb = g,
          storage_analysis = analyze_storage_characteristics
            (get_or (storage_type aws_data) []) (get_or (storage_type gcp_data) [])\<rparr>)"
  using nz by (simp add: compare_storage_options_def Let_def py_truediv_def)

lemma compare_compute_instances_raises:
  assumes "max (get_or (price_per_month aws_data) 0) (get_or (price_per_month gcp_data) 0) = 0"
  shows "compare_compute_instances aws_data gcp_data wr = Inl ZeroDivisionError"
  using assms by (simp add: compare_compute_instances_def Let_def py_truediv_def)

lemma compare_storage_options_raises:
  assumes "max (get_or (price_per_gb_month aws_data) 0) (get_or (price_per_gb_month gcp_data) 0) = 0"
  shows "compare_storage_options aws_data gcp_data = Inl ZeroDivisionError"
  using assms by (simp add: compare_storage_options_def Let_def py_truediv_def)

lemma savings_percentage_bounds:
  fixes a g :: real
  assumes "0 \<le> a" "0 \<le> g" "max a g \<noteq> 0"
  shows "0 \<le> \<bar>a - g\<bar> / max a g * 100" "\<bar>a - g\<bar> / max a g * 100 \<le> 100"
proof -
  from assms have pos: "0 < max a g" by (simp add: max_def split: if_splits)
  have le: "\<bar>a - g\<bar> \<le> max a g" using assms by (simp add: max_def abs_if)
  have q: "0 \<le> \<bar>a - g\<bar> / max a g" "\<bar>a - g\<bar> / max a g \<le> 1"
    using pos le by (simp_all add: divide_le_eq_1)
  define x where "x = \<bar>a - g\<bar> / max a g"
  from q have "0 \<le> x" "x \<le> 1" by (simp_all add: x_def)
  then have "0 \<le> x * 100" "x * 100 \<le> 100" by simp_all
  then show "0 \<le> \<bar>a - g\<bar> / max a g * 100" "\<bar>a - g\<bar> / max a g * 100 \<le> 100"
    by (simp_all only: x_def)
qed

text \<open>The confidence of either comparison on non-negative costs.\<close>

lemma compute_confidence_part:
  assumes a0: "0 \<le> get_or (price_per_month aws_data) 0"
      and g0: "0 \<le> get_or (price_per_month gcp_data) 0"
  shows "case compare_compute_instances aws_data gcp_data wr of
        Inr r \<Rightarrow>
          confidence (recommendation r) = \<bar>final (aws (scores r)) - final (gcp (scores r))\<bar> / 10 \<and>
          0 \<le> confidence (recommendation r) \<and> confidence (recommendation r) \<le> 1 \<and>
          score_card_bounded (aws (scores r)) \<and> score_card_bounded (gcp (scores r))
      | Inl e \<Rightarrow> e = ZeroDivisionError \<and>
          get_or (price_per_month aws_data) 0 = 0 \<and> get_or (price_per_month gcp_data) 0 = 0"
proof (cases "max (get_or (price_per_month aws_data) 0) (get_or (price_per_month gcp_data) 0) = 0")
  case True
  with a0 g0 have "get_or (price_per_month aws_data) 0 = 0 \<and> get_or (price_per_month gcp_data) 0 = 0"
    by (simp add: max_def split: if_splits)
  with compare_compute_instances_raises [OF True, of wr] show ?thesis by simp
next
  case False
  define a where "a = get_or (price_per_month aws_data) 0"
  define g where "g = get_or (price_per_month gcp_data) 0"
  define ca where "ca = aws (calculate_cost_score a g)"
  define cg where "cg = gcp (calculate_cost_score a g)"
  define pa where "pa = aws (calculate_performance_score ''aws'' ''gcp'' wr)"
  define pg where "pg = gcp (calculate_performance_score ''aws'' ''gcp'' wr)"
  have cb: "0 \<le> ca" "ca \<le> 10" "0 \<le> cg" "cg \<le> 10"
    using cost_score_bounds [of a g] a0 g0 by (simp_all add: a_def g_def ca_def cg_def)
  have pb: "0 \<le> pa" "pa \<le> 10" "0 \<le> pg" "pg \<le> 10"
    using performance_score_bounds [of "''aws''" "''gcp''" wr] by (simp_all add: pa_def pg_def)
  define fa where "fa = ca * 0.35 + pa * 0.25 + 9.5 * 0.20 + 9.8 * 0.15 + 8.5 * 0.05"
  define fg where "fg = cg * 0.35 + pg * 0.25 + 9.3 * 0.20 + 9.6 * 0.15 + 9.2 * 0.05"
  have fb: "0 \<le> fa" "fa \<le> 10" "0 \<le> fg" "fg \<le> 10"
    using cb pb by (simp_all add: fa_def fg_def)
  have conf: "0 \<le> \<bar>fa - fg\<bar> / 10" "\<bar>fa - fg\<bar> / 10 \<le> 1"
    using fb by simp_all
  from compare_compute_instances_result [OF False, of wr]
  obtain reasons where r: "compare_compute_instances aws_data gcp_data wr = Inr
      \<lparr>comparison_type = ''compute_instances'',
          cost_difference = \<bar>a - g\<bar>,
          cost_savings_provider = (if a < g then ''aws'' else ''gcp''),
          cost_savings_percentage = \<bar>(a - g) / max a g\<bar> * 100,
          recommendation =
            \<lparr>winner = (if fa > fg then ''aws'' else ''gcp''),
             confidence = \<bar>fa - fg\<bar> / 10,
             primary_reasons = reasons\<rparr>,
          aws_instance = get_or (instance_type aws_data) ''N/A'',
          gcp_instance = get_or (machine_type gcp_data) ''N/A'',
          aws_cost = a,
          gcp_cost = g,
          scores =
            \<lparr>aws = \<lparr>cost = ca, performance = pa, scalability = 9.5,
                     reliability = 9.8, maintenance = 8.5, final = fa\<rparr>,
             gcp = \<lparr>cost = cg, performance = pg, scalability = 9.3,
                     reliability = 9.6, maintenance = 9.2, final = fg\<rparr>\<rparr>\<rparr>"
    unfolding Let_def a_def g_def ca_def cg_def pa_def pg_def fa_def fg_def by blast
  show ?thesis
    unfolding r using cb pb fb conf by (simp add: score_card_bounded_def)
qed

lemma storage_confidence_part:
  assumes a0: "0 \<le> get_or (price_per_gb_month aws_data) 0"
      and g0: "0 \<le> get_or (price_per_gb_month gcp_data) 0"
  shows "case compare_storage_options aws_data gcp_data of
        Inr r \<Rightarrow>
          confidence (recommendation r) = min (cost_savings_percentage r / 20) 1 \<and>
          confidence (recommendation r) =
            (if 20 \<le> cost_savings_percentage r then 1 else cost_savings_percentage r / 20) \<and>
          0 \<le> confidence (recommendation r) \<and> confidence (recommendation r) \<le> 1
      | Inl e \<Rightarrow> e = ZeroDivisionError \<and>
          get_or (price_per_gb_month aws_data) 0 = 0 \<and> get_or (price_per_gb_month gcp_data) 0 = 0"
proof (cases "max (get_or (price_per_gb_month aws_data) 0) (get_or (price_per_gb_month gcp_data) 0) = 0")
  case True
  with a0 g0 have "get_or (price_per_gb_month aws_data) 0 = 0 \<and> get_or (price_per_gb_month gcp_data) 0 = 0"
    by (simp add: max_def split: if_splits)
  with compare_storage_options_raises [OF True] show ?thesis by simp
next
  case False
  define pct where "pct = \<bar>get_or (price_per_gb_month aws_data) 0 - get_or (price_per_gb_month gcp_data) 0\<bar>
      / max (get_or (price_per_gb_month aws_data) 0) (get_or (price_per_gb_month gcp_data) 0) * 100"
  have pb: "0 \<le> pct" unfolding pct_def by (rule savings_percentage_bounds(1) [OF a0 g0 False])
  have c: "min (pct / 20) 1 = (if 20 \<le> pct then 1 else pct / 20)"
    "0 \<le> min (pct / 20) 1" "min (pct / 20) 1 \<le> 1"
    using pb by (simp_all add: min_def)
  show ?thesis
    unfolding compare_storage_options_result [OF False] Let_def pct_def [symmetric]
    using c by simp
qed

text \<open>Two worked examples: monthly costs 100 and 150, and storage prices 0.023 and 0.020.\<close>

lemma compute_example_eval:
  "\<exists>r. compare_compute_instances
     \<lparr>price_per_month = Some 100, instance_type = None, machine_type = None\<rparr>
     \<lparr>price_per_month = Some 150, instance_type = None, machine_type = None\<rparr>
     Map.empty = Inr r \<and> final (aws (scores r)) = 1619 / 200 \<and>
     final (gcp (scores r)) = 1477 / 200 "
  by (simp add: compare_compute_instances_def Let_def py_truediv_def get_or_def
        calculate_cost_score_def calculate_performance_score_def fixed_scores weights_simps
        get_primary_reasons_gcp get_primary_reasons_aws)

lemma storage_example_eval:
  "\<exists>r. compare_storage_options
     \<lparr>price_per_gb_month = Some 0.023, storage_type = Some ''s3_standard''\<rparr>
     \<lparr>price_per_gb_month = Some 0.020, storage_type = Some ''standard''\<rparr> = Inr r \<and>
     cost_savings_percentage r = 300 / 23"
  by (simp add: compare_storage_options_def Let_def py_truediv_def get_or_def)

text \<open>The result of the cost-of-ownership calculation when the larger total is not zero.\<close>

lemma calculate_tco_result:
  assumes nz: "max ((get_or (cc ''aws'') 0 + get_or (sc ''aws'') 0 + get_or (ad ''aws'') 0
                      + (get_or (cc ''aws'') 0 + get_or (sc ''aws'') 0) * 0.15) * of_int h)
                   ((get_or (cc ''gcp'') 0 + get_or (sc ''gcp'') 0 + get_or (ad ''gcp'') 0
                      + (get_or (cc ''gcp'') 0 + get_or (sc ''gcp'') 0) * 0.12) * of_int h) \<noteq> 0"
  shows "calculate_tco cc sc ad h = Inr
     (let ac = get_or (cc ''aws'') 0; gc = get_or (cc ''gcp'') 0;
          ast = get_or (sc ''aws'') 0; gst = get_or (sc ''gcp'') 0;
          aa = get_or (ad ''aws'') 0; ga = get_or (ad ''gcp'') 0;
          ao = (ac + ast) * 0.15; go = (gc + gst) * 0.12;
          atot = ac + ast + aa + ao; gtot = gc + gst + ga + go;
          atco = atot * of_int h; gtco = gtot * of_int h
      in \<lparr>time_horizon_months = h,
          aws_tco = atco,
          gcp_tco = gtco,
          savings = \<bar>atco - gtco\<bar>,
          savings_provider = (if atco < gtco then ''aws'' else ''gcp''),
          savings_percentage = \<bar>atco - gtco\<bar> / max atco gtco * 100,
          breakdown =
            \<lparr>aws = \<lparr>compute_monthly = ac, storage_monthly = ast, additional_monthly = aa,
                     operational_monthly = ao, total_monthly = atot\<rparr>,
             gcp = \<lparr>compute_monthly = gc, storage_monthly = gst, additional_monthly = ga,
                     operational_monthly = go, total_monthly = gtot\<rparr>\<rparr>\<rparr>)"
  using nz by (simp add: calculate_tco_def Let_def py_truediv_def)

lemma calculate_tco_fields:
  assumes nz: "max ((get_or (cc ''aws'') 0 + get_or (sc ''aws'') 0 + get_or (ad ''aws'') 0
                      + (get_or (cc ''aws'') 0 + get_or (sc ''aws'') 0) * 0.15) * of_int h)
                   ((get_or (cc ''gcp'') 0 + get_or (sc ''gcp'') 0 + get_or (ad ''gcp'') 0
                      + (get_or (cc ''gcp'') 0 + get_or (sc ''gcp'') 0) * 0.12) * of_int h) \<noteq> 0"
  shows "\<exists>r. calculate_tco cc sc ad h = Inr r \<and>
     aws_tco r = (get_or (cc ''aws'') 0 + get_or (sc ''aws'') 0 + get_or (ad ''aws'') 0
                      + (get_or (cc ''aws'') 0 + get_or (sc ''aws'') 0) * 0.15) * of_int h \<and>
     gcp_tco r = (get_or (cc ''gcp'') 0 + get_or (sc ''gcp'') 0 + get_or (ad ''gcp'') 0
                      + (get_or (cc ''gcp'') 0 + get_or (sc ''gcp'') 0) * 0.12) * of_int h \<and>
     savings r = \<bar>aws_tco r - gcp_tco r\<bar> \<and>
     savings_provider r = (if aws_tco r < gcp_tco r then ''aws'' else ''gcp'')"
  unfolding calculate_tco_result [OF nz] Let_def by simp

text \<open>The reasons: a foreign winner name, and the list inside the compute comparison.\<close>

lemma reasons_distinct: "distinct [reason_cost, reason_performance, reason_scalability]"
  by (simp add: reason_cost_def reason_performance_def reason_scalability_def)

lemma get_primary_reasons_KeyError:
  "w \<noteq> ''aws'' \<Longrightarrow> w \<noteq> ''gcp'' \<Longrightarrow>
   get_primary_reasons w cs ps ss = Inl KeyError"
  by (simp add: get_primary_reasons_def subscript_def Let_def)

lemma compare_compute_instances_reasons:
  "compare_compute_instances aws_data gcp_data wr = Inr r \<Longrightarrow>
   get_primary_reasons (winner (recommendation r))
       \<lparr>aws = cost (aws (scores r)), gcp = cost (gcp (scores r))\<rparr>
       \<lparr>aws = performance (aws (scores r)), gcp = performance (gcp (scores r))\<rparr>
       \<lparr>aws = scalability (aws (scores r)), gcp = scalability (gcp (scores r))\<rparr>
     = Inr (primary_reasons (recommendation r))"
  by (auto simp: compare_compute_instances_def Let_def py_truediv_def fixed_scores
        get_primary_reasons_aws get_primary_reasons_gcp split: if_splits)

text \<open>The storage table, and the order of strings spelled out.\<close>

lemma storage_characteristics_unknown:
  "k \<notin> {''s3_standard'', ''s3_ia'', ''s3_glacier'', ''standard'', ''nearline'',
          ''coldline'', ''archive''} \<Longrightarrow> storage_characteristics k = None"
  by (simp add: storage_characteristics_def)

lemma string_less_lexord:
  "(xs :: string) < ys \<longleftrightarrow> (xs, ys) \<in> lexord {(c, d). of_char c < (of_char d :: nat)}"
proof -
  have "{(u :: char, v). u < v} = {(c, d). of_char c < (of_char d :: nat)}"
    by (simp add: less_char_def)
  then show ?thesis by (simp add: list_less_def)
qed

text \<open>Splitting at whitespace, and the fields of the migration estimate.\<close>

lemma split_examples:
  "split ''  migrate the   billing service '' = [''migrate'', ''the'', ''billing'', ''service'']"
  "split [] = []"
  "split ''   '' = []"
  by (simp_all add: split_def isspace_def)

lemma levels_distinct:
  "Baixa \<noteq> Media" "Baixa \<noteq> Alta" "Media \<noteq> Alta"
  "Media \<noteq> Baixa" "Alta \<noteq> Baixa" "Alta \<noteq> Media"
  by (simp_all add: Baixa_def Media_def Alta_def)

lemma budget_multipliers_get:
  "get_or (budget_multipliers b) 1 =
     (if b = ''tight'' then 0.7 else if b = ''moderate'' then 1
      else if b = ''flexible'' then 1.3 else 1)"
  by (simp add: budget_multipliers_def get_or_def)

lemma migration_fields:
  "complexity_score (generate_migration_recommendation wd b) = real (length (split wd)) / 10"
  "complexity_level (generate_migration_recommendation wd b) =
     (if real (length (split wd)) / 10 < 2 then Baixa
      else if real (length (split wd)) / 10 < 5 then Media else Alta)"
  "base_cost (generate_migration_recommendation wd b) =
     (if real (length (split wd)) / 10 < 2 then 5000
      else if real (length (split wd)) / 10 < 5 then 15000 else 35000)"
  "estimated_cost (generate_migration_recommendation wd b) =
     base_cost (generate_migration_recommendation wd b) * get_or (budget_multipliers b) 1"
  by (simp_all add: generate_migration_recommendation_def Let_def levels_distinct
        split: prod.splits)

subsection \<open>Claims\<close>

text \<open>
  C1. Cost score: two zero costs score 5.0 each; two non-negative costs that are not both
  zero give each provider (the other's cost / the sum of both) * 10, and the two scores
  add up to exactly 10.
\<close>

theorem cost_score_zero_sum:
  "calculate_cost_score 0 0 = \<lparr>aws = 5, gcp = 5\<rparr> \<and>
   (0 \<le> a \<and> 0 \<le> g \<and> \<not> (a = 0 \<and> g = 0) \<longrightarrow>
      aws (calculate_cost_score a g) = (g / (a + g)) * 10 \<and>
      gcp (calculate_cost_score a g) = (a / (a + g)) * 10 \<and>
      aws (calculate_cost_score a g) + gcp (calculate_cost_score a g) = 10)"
proof -
  have zero: "calculate_cost_score 0 0 = \<lparr>aws = 5, gcp = 5\<rparr>"
    by (simp add: calculate_cost_score_def)
  have pos: "aws (calculate_cost_score a g) = (g / (a + g)) * 10 \<and>
             gcp (calculate_cost_score a g) = (a / (a + g)) * 10 \<and>
             aws (calculate_cost_score a g) + gcp (calculate_cost_score a g) = 10"
    if h: "0 \<le> a" "0 \<le> g" "\<not> (a = 0 \<and> g = 0)"
  proof -
    from h have nz: "a + g \<noteq> 0" by linarith
    have s: "calculate_cost_score a g = \<lparr>aws = (g / (a + g)) * 10, gcp = (a / (a + g)) * 10\<rparr>"
      using h nz by (auto simp: calculate_cost_score_def Let_def)
    have "(g / (a + g)) * 10 + (a / (a + g)) * 10 = ((g + a) / (a + g)) * 10"
      by (simp only: add_divide_distrib distrib_right)
    also have "\<dots> = 10"
      using nz by (simp add: add.commute)
    finally show ?thesis using s by simp
  qed
  show ?thesis using zero pos by blast
qed

theorem cost_score_zero_sum_witness:
  "(0::real) \<le> 100 \<and> (0::real) \<le> 150 \<and> \<not> ((100::real) = 0 \<and> (150::real) = 0) \<and>
   aws (calculate_cost_score 100 150) = 6 \<and>
   gcp (calculate_cost_score 100 150) = 4 \<and>
   aws (calculate_cost_score 100 150) + gcp (calculate_cost_score 100 150) = 10"
  using cost_score_zero_sum [of 100 150] by simp

text \<open>
  C2. The savings percentage is the absolute cost difference over the larger cost, times
  100, and two zero costs are said to give 0 without an error. Evaluated on two quotes
  without a price (so both costs default to 0), the compute and the storage comparison
  both raise \<open>ZeroDivisionError\<close>: the division by the larger cost is not guarded.
\<close>

theorem savings_percentage_zero_costs_raise:
  "compare_compute_instances
     \<lparr>price_per_month = None, instance_type = None, machine_type = None\<rparr>
     \<lparr>price_per_month = None, instance_type = None, machine_type = None\<rparr>
     Map.empty = Inl ZeroDivisionError \<and>
   compare_storage_options
     \<lparr>price_per_gb_month = None, storage_type = None\<rparr>
     \<lparr>price_per_gb_month = None, storage_type = None\<rparr> = Inl ZeroDivisionError"
  by (simp add: compare_compute_instances_def compare_storage_options_def get_or_def
        py_truediv_def Let_def)

text \<open>
  C3. The five weights are 0.35, 0.25, 0.20, 0.15 and 0.05 and add up to 1. Whenever the
  larger monthly cost is not zero the compute comparison returns; each provider's final
  score is the sum of its five criterion scores times their weights; the winner is
  \<open>aws\<close> when its final score is strictly greater and \<open>gcp\<close> otherwise, equal
  final scores included.
\<close>

theorem compute_final_score_and_winner:
  "cost weights = 0.35 \<and> performance weights = 0.25 \<and> scalability weights = 0.20 \<and>
   reliability weights = 0.15 \<and> maintenance weights = 0.05 \<and>
   cost weights + performance weights + scalability weights + reliability weights
     + maintenance weights = 1 \<and>
   (max (get_or (price_per_month aws_data) 0) (get_or (price_per_month gcp_data) 0) \<noteq> 0 \<longrightarrow>
    (\<exists>r. compare_compute_instances aws_data gcp_data wr = Inr r \<and>
       cost (aws (scores r)) = aws (calculate_cost_score (get_or (price_per_month aws_data) 0)
                                      (get_or (price_per_month gcp_data) 0)) \<and>
       cost (gcp (scores r)) = gcp (calculate_cost_score (get_or (price_per_month aws_data) 0)
                                      (get_or (price_per_month gcp_data) 0)) \<and>
       performance (aws (scores r)) = aws (calculate_performance_score ''aws'' ''gcp'' wr) \<and>
       performance (gcp (scores r)) = gcp (calculate_performance_score ''aws'' ''gcp'' wr) \<and>
       final (aws (scores r)) =
         cost (aws (scores r)) * cost weights +
         performance (aws (scores r)) * performance weights +
         scalability (aws (scores r)) * scalability weights +
         reliability (aws (scores r)) * reliability weights +
         maintenance (aws (scores r)) * maintenance weights \<and>
       final (gcp (scores r)) =
         cost (gcp (scores r)) * cost weights +
         performance (gcp (scores r)) * performance weights +
         scalability (gcp (scores r)) * scalability weights +
         reliability (gcp (scores r)) * reliability weights +
         maintenance (gcp (scores r)) * maintenance weights \<and>
       winner (recommendation r) =
         (if final (aws (scores r)) > final (gcp (scores r)) then ''aws'' else ''gcp'')))"
proof -
  have w: "cost weights = 0.35 \<and> performance weights = 0.25 \<and> scalability weights = 0.20 \<and>
     reliability weights = 0.15 \<and> maintenance weights = 0.05 \<and>
     cost weights + performance weights + scalability weights + reliability weights
       + maintenance weights = 1"
    by (simp add: weights_def)
  have r: "\<exists>r. compare_compute_instances aws_data gcp_data wr = Inr r \<and>
       cost (aws (scores r)) = aws (calculate_cost_score (get_or (price_per_month aws_data) 0)
                                      (get_or (price_per_month gcp_data) 0)) \<and>
       cost (gcp (scores r)) = gcp (calculate_cost_score (get_or (price_per_month aws_data) 0)
                                      (get_or (price_per_month gcp_data) 0)) \<and>
       performance (aws (scores r)) = aws (calculate_performance_score ''aws'' ''gcp'' wr) \<and>
       performance (gcp (scores r)) = gcp (calculate_performance_score ''aws'' ''gcp'' wr) \<and>
       final (aws (scores r)) =
         cost (aws (scores r)) * cost weights +
         performance (aws (scores r)) * performance weights +
         scalability (aws (scores r)) * scalability weights +
         reliability (aws (scores r)) * reliability weights +
         maintenance (aws (scores r)) * maintenance weights \<and>
       final (gcp (scores r)) =
         cost (gcp (scores r)) * cost weights +
         performance (gcp (scores r)) * performance weights +
         scalability (gcp (scores r)) * scalability weights +
         reliability (gcp (scores r)) * reliability weights +
         maintenance (gcp (scores r)) * maintenance weights \<and>
       winner (recommendation r) =
         (if final (aws (scores r)) > final (gcp (scores r)) then ''aws'' else ''gcp'')"
    if nz: "max (get_or (price_per_month aws_data) 0) (get_or (price_per_month gcp_data) 0) \<noteq> 0"
  proof -
    from compare_compute_instances_result [OF nz, of wr]
    obtain reasons r where
      "compare_compute_instances aws_data gcp_data wr = Inr r"
      and "r = (let a = get_or (price_per_month aws_data) 0;
          g = get_or (price_per_month gcp_data) 0;
          cs = calculate_cost_score a g;
          ps = calculate_performance_score ''aws'' ''gcp'' wr;
          fa = aws cs * 0.35 + aws ps * 0.25 + 9.5 * 0.20 + 9.8 * 0.15 + 8.5 * 0.05;
          fg = gcp cs * 0.35 + gcp ps * 0.25 + 9.3 * 0.20 + 9.6 * 0.15 + 9.2 * 0.05
      in \<lparr>comparison_type = ''compute_instances'',
          cost_difference = \<bar>a - g\<bar>,
          cost_savings_provider = (if a < g then ''aws'' else ''gcp''),
          cost_savings_percentage = \<bar>(a - g) / max a g\<bar> * 100,
          recommendation =
            \<lparr>winner = (if fa > fg then ''aws'' else ''gcp''),
             confidence = \<bar>fa - fg\<bar> / 10,
             primary_reasons = reasons\<rparr>,
          aws_instance = get_or (instance_type aws_data) ''N/A'',
          gcp_instance = get_or (machine_type gcp_data) ''N/A'',
          aws_cost = a,
          gcp_cost = g,
          scores =
            \<lparr>aws = \<lparr>cost = aws cs, performance = aws ps, scalability = 9.5,
                     reliability = 9.8, maintenance = 8.5, final = fa\<rparr>,
             gcp = \<lparr>cost = gcp cs, performance = gcp ps, scalability = 9.3,
                     reliability = 9.6, maintenance = 9.2, final = fg\<rparr>\<rparr>\<rparr>)"
      by blast
    then show ?thesis
      by (simp add: Let_def weights_simps)
  qed
  show ?thesis using w r by blast
qed

theorem compute_final_score_and_winner_witness:
  "max (get_or (Some (100::real)) 0) (get_or (Some (150::real)) 0) \<noteq> 0 \<and>
   (\<exists>r. compare_compute_instances
          \<lparr>price_per_month = Some 100, instance_type = None, machine_type = None\<rparr>
          \<lparr>price_per_month = Some 150, instance_type = None, machine_type = None\<rparr>
          Map.empty = Inr r \<and>
        final (aws (scores r)) = 8.095 \<and> final (gcp (scores r)) = 7.385 \<and>
        winner (recommendation r) = ''aws'')"
proof -
  have nz: "max (get_or (Some (100::real)) 0) (get_or (Some (150::real)) 0) \<noteq> 0"
    by (simp add: get_or_def)
  from compute_final_score_and_winner
    [of "\<lparr>price_per_month = Some 100, instance_type = None, machine_type = None\<rparr>"
        "\<lparr>price_per_month = Some 150, instance_type = None, machine_type = None\<rparr>"
        Map.empty] nz
  obtain r where r: "compare_compute_instances
          \<lparr>price_per_month = Some 100, instance_type = None, machine_type = None\<rparr>
          \<lparr>price_per_month = Some 150, instance_type = None, machine_type = None\<rparr>
          Map.empty = Inr r"
    and w: "winner (recommendation r) =
         (if final (aws (scores r)) > final (gcp (scores r)) then ''aws'' else ''gcp'')"
    by auto
  from compute_example_eval r have f: "final (aws (scores r)) = 1619 / 200"
    "final (gcp (scores r)) = 1477 / 200" by auto
  from f w have "final (aws (scores r)) = 8.095" "final (gcp (scores r)) = 7.385"
    "winner (recommendation r) = ''aws''" by simp_all
  with r nz show ?thesis by blast
qed

text \<open>
  C4. Whenever the larger total is not zero the calculation returns, and in its result:
  the operational cost is 0.15 * (compute + storage) for AWS and 0.12 * (compute + storage)
  for GCP; the monthly total is compute + storage + additional + operational; the total
  cost of ownership is the monthly total times the horizon; the savings are the absolute
  difference of the two totals; the savings provider is \<open>aws\<close> when its total is
  strictly smaller and \<open>gcp\<close> otherwise; and the breakdown keeps the five monthly
  figures of each provider, the first three as they were given.
\<close>

theorem tco_breakdown:
  "max ((get_or (cc ''aws'') 0 + get_or (sc ''aws'') 0 + get_or (ad ''aws'') 0
           + (get_or (cc ''aws'') 0 + get_or (sc ''aws'') 0) * 0.15) * of_int h)
       ((get_or (cc ''gcp'') 0 + get_or (sc ''gcp'') 0 + get_or (ad ''gcp'') 0
           + (get_or (cc ''gcp'') 0 + get_or (sc ''gcp'') 0) * 0.12) * of_int h) \<noteq> 0 \<Longrightarrow>
   \<exists>r. calculate_tco cc sc ad h = Inr r \<and>
     compute_monthly (aws (breakdown r)) = get_or (cc ''aws'') 0 \<and>
     compute_monthly (gcp (breakdown r)) = get_or (cc ''gcp'') 0 \<and>
     storage_monthly (aws (breakdown r)) = get_or (sc ''aws'') 0 \<and>
     storage_monthly (gcp (breakdown r)) = get_or (sc ''gcp'') 0 \<and>
     additional_monthly (aws (breakdown r)) = get_or (ad ''aws'') 0 \<and>
     additional_monthly (gcp (breakdown r)) = get_or (ad ''gcp'') 0 \<and>
     operational_monthly (aws (breakdown r)) =
       0.15 * (compute_monthly (aws (breakdown r)) + storage_monthly (aws (breakdown r))) \<and>
     operational_monthly (gcp (breakdown r)) =
       0.12 * (compute_monthly (gcp (breakdown r)) + storage_monthly (gcp (breakdown r))) \<and>
     total_monthly (aws (breakdown r)) =
       compute_monthly (aws (breakdown r)) + storage_monthly (aws (breakdown r))
         + additional_monthly (aws (breakdown r)) + operational_monthly (aws (breakdown r)) \<and>
     total_monthly (gcp (breakdown r)) =
       compute_monthly (gcp (breakdown r)) + storage_monthly (gcp (breakdown r))
         + additional_monthly (gcp (breakdown r)) + operational_monthly (gcp (breakdown r)) \<and>
     time_horizon_months r = h \<and>
     aws_tco r = total_monthly (aws (breakdown r)) * of_int h \<and>
     gcp_tco r = total_monthly (gcp (breakdown r)) * of_int h \<and>
     savings r = \<bar>aws_tco r - gcp_tco r\<bar> \<and>
     savings_provider r = (if aws_tco r < gcp_tco r then ''aws'' else ''gcp'')"
proof -
  assume nz: "max ((get_or (cc ''aws'') 0 + get_or (sc ''aws'') 0 + get_or (ad ''aws'') 0
           + (get_or (cc ''aws'') 0 + get_or (sc ''aws'') 0) * 0.15) * of_int h)
       ((get_or (cc ''gcp'') 0 + get_or (sc ''gcp'') 0 + get_or (ad ''gcp'') 0
           + (get_or (cc ''gcp'') 0 + get_or (sc ''gcp'') 0) * 0.12) * of_int h) \<noteq> 0"
  show ?thesis
    unfolding calculate_tco_result [OF nz] Let_def by simp
qed

theorem tco_breakdown_witness:
  "max (((100::real) + 23 + 0 + (100 + 23) * 0.15) * of_int 36)
       (((150::real) + 20 + 0 + (150 + 20) * 0.12) * of_int 36) \<noteq> 0 \<and>
   (\<exists>r. calculate_tco [''aws'' \<mapsto> 100, ''gcp'' \<mapsto> 150] [''aws'' \<mapsto> 23, ''gcp'' \<mapsto> 20]
          [''aws'' \<mapsto> 0, ''gcp'' \<mapsto> 0] 36 = Inr r \<and>
        operational_monthly (aws (breakdown r)) = 18.45 \<and>
        operational_monthly (gcp (breakdown r)) = 20.4 \<and>
        total_monthly (aws (breakdown r)) = 141.45 \<and>
        total_monthly (gcp (breakdown r)) = 190.4 \<and>
        aws_tco r = 5092.2 \<and> gcp_tco r = 6854.4 \<and>
        savings r = 1762.2 \<and> savings_provider r = ''aws'')"
proof -
  have nz: "max (((100::real) + 23 + 0 + (100 + 23) * 0.15) * of_int 36)
       (((150::real) + 20 + 0 + (150 + 20) * 0.12) * of_int 36) \<noteq> 0"
    by simp
  have "\<exists>r. calculate_tco [''aws'' \<mapsto> 100, ''gcp'' \<mapsto> 150] [''aws'' \<mapsto> 23, ''gcp'' \<mapsto> 20]
          [''aws'' \<mapsto> 0, ''gcp'' \<mapsto> 0] 36 = Inr r \<and>
        operational_monthly (aws (breakdown r)) = 18.45 \<and>
        operational_monthly (gcp (breakdown r)) = 20.4 \<and>
        total_monthly (aws (breakdown r)) = 141.45 \<and>
        total_monthly (gcp (breakdown r)) = 190.4 \<and>
        aws_tco r = 5092.2 \<and> gcp_tco r = 6854.4 \<and>
        savings r = 1762.2 \<and> savings_provider r = ''aws''"
    using tco_breakdown [of "[''aws'' \<mapsto> 100, ''gcp'' \<mapsto> 150]" "[''aws'' \<mapsto> 23, ''gcp'' \<mapsto> 20]"
          "[''aws'' \<mapsto> 0, ''gcp'' \<mapsto> 0]" 36]
    by (auto simp: get_or_def)
  with nz show ?thesis by blast
qed

text \<open>
  C5. On non-negative costs, whenever the compute comparison returns, its confidence is
  the absolute difference of the two final scores over 10 and lies in [0, 1], and all
  scores of both cards lie in [0, 10]; whenever the storage comparison returns, its
  confidence is the smaller of (savings percentage / 20) and 1, hence 1 from 20 percent
  on and percentage / 20 below, and lies in [0, 1]. Either comparison fails to return only
  with \<open>ZeroDivisionError\<close> at two zero costs.
\<close>

theorem confidence_bounds:
  "(0 \<le> get_or (price_per_month aws_data) 0 \<and> 0 \<le> get_or (price_per_month gcp_data) 0 \<longrightarrow>
     (case compare_compute_instances aws_data gcp_data wr of
        Inr r \<Rightarrow>
          confidence (recommendation r) = \<bar>final (aws (scores r)) - final (gcp (scores r))\<bar> / 10 \<and>
          0 \<le> confidence (recommendation r) \<and> confidence (recommendation r) \<le> 1 \<and>
          score_card_bounded (aws (scores r)) \<and> score_card_bounded (gcp (scores r))
      | Inl e \<Rightarrow> e = ZeroDivisionError \<and>
          get_or (price_per_month aws_data) 0 = 0 \<and> get_or (price_per_month gcp_data) 0 = 0)) \<and>
   (0 \<le> get_or (price_per_gb_month aws_storage_data) 0 \<and>
    0 \<le> get_or (price_per_gb_month gcp_storage_data) 0 \<longrightarrow>
     (case compare_storage_options aws_storage_data gcp_storage_data of
        Inr r \<Rightarrow>
          confidence (recommendation r) = min (cost_savings_percentage r / 20) 1 \<and>
          confidence (recommendation r) =
            (if 20 \<le> cost_savings_percentage r then 1 else cost_savings_percentage r / 20) \<and>
          0 \<le> confidence (recommendation r) \<and> confidence (recommendation r) \<le> 1
      | Inl e \<Rightarrow> e = ZeroDivisionError \<and>
          get_or (price_per_gb_month aws_storage_data) 0 = 0 \<and>
          get_or (price_per_gb_month gcp_storage_data) 0 = 0))"
  using compute_confidence_part [of aws_data gcp_data wr]
        storage_confidence_part [of aws_storage_data gcp_storage_data]
  by blast

theorem confidence_bounds_witness:
  "0 \<le> get_or (Some (100::real)) 0 \<and> 0 \<le> get_or (Some (150::real)) 0 \<and>
   (\<exists>r. compare_compute_instances
          \<lparr>price_per_month = Some 100, instance_type = None, machine_type = None\<rparr>
          \<lparr>price_per_month = Some 150, instance_type = None, machine_type = None\<rparr>
          Map.empty = Inr r \<and>
        confidence (recommendation r) = 71 / 1000 \<and>
        score_card_bounded (aws (scores r)) \<and> score_card_bounded (gcp (scores r))) \<and>
   0 \<le> get_or (Some (0.023::real)) 0 \<and> 0 \<le> get_or (Some (0.020::real)) 0 \<and>
   (\<exists>r. compare_storage_options
          \<lparr>price_per_gb_month = Some 0.023, storage_type = Some ''s3_standard''\<rparr>
          \<lparr>price_per_gb_month = Some 0.020, storage_type = Some ''standard''\<rparr> = Inr r \<and>
        confidence (recommendation r) = 15 / 23)"
proof -
  have h: "0 \<le> get_or (Some (100::real)) 0" "0 \<le> get_or (Some (150::real)) 0"
    "0 \<le> get_or (Some (0.023::real)) 0" "0 \<le> get_or (Some (0.020::real)) 0"
    by (simp_all add: get_or_def)
  note t = confidence_bounds
    [of "\<lparr>price_per_month = Some 100, instance_type = None, machine_type = None\<rparr>"
        "\<lparr>price_per_month = Some 150, instance_type = None, machine_type = None\<rparr>"
        Map.empty
        "\<lparr>price_per_gb_month = Some 0.023, storage_type = Some ''s3_standard''\<rparr>"
        "\<lparr>price_per_gb_month = Some 0.020, storage_type = Some ''standard''\<rparr>"]
  obtain r where r: "compare_compute_instances
          \<lparr>price_per_month = Some 100, instance_type = None, machine_type = None\<rparr>
          \<lparr>price_per_month = Some 150, instance_type = None, machine_type = None\<rparr>
          Map.empty = Inr r" "final (aws (scores r)) = 1619 / 200"
          "final (gcp (scores r)) = 1477 / 200"
    using compute_example_eval by blast
  obtain s where s: "compare_storage_options
          \<lparr>price_per_gb_month = Some 0.023, storage_type = Some ''s3_standard''\<rparr>
          \<lparr>price_per_gb_month = Some 0.020, storage_type = Some ''standard''\<rparr> = Inr s"
          "cost_savings_percentage s = 300 / 23"
    using storage_example_eval by blast
  from t h r have "confidence (recommendation r) = 71 / 1000 \<and>
        score_card_bounded (aws (scores r)) \<and> score_card_bounded (gcp (scores r))"
    by simp
  moreover from t h s have "confidence (recommendation s) = 15 / 23"
    by simp
  ultimately show ?thesis using h r(1) s(1) by blast
qed

text \<open>
  C6. The performance score depends on the workload type alone: \<open>compute_intensive\<close>
  gives AWS 8.5 and GCP 9.0, \<open>data_intensive\<close> gives AWS 9.2 and GCP 8.8, and every
  other value, a missing type included, gives AWS 8.8 and GCP 8.9. The method returns a
  pair of scores for every input, so no workload type is an error.
\<close>

theorem performance_score_branches:
  "calculate_performance_score provider1 provider2 workload_requirements =
     (if workload_requirements ''type'' = Some ''compute_intensive'' then \<lparr>aws = 8.5, gcp = 9.0\<rparr>
      else if workload_requirements ''type'' = Some ''data_intensive'' then \<lparr>aws = 9.2, gcp = 8.8\<rparr>
      else \<lparr>aws = 8.8, gcp = 8.9\<rparr>)"
  by (cases "workload_requirements ''type''")
     (simp_all add: calculate_performance_score_def get_or_def Let_def)

theorem performance_score_branches_witness:
  "calculate_performance_score ''aws'' ''gcp'' [''type'' \<mapsto> ''compute_intensive'']
     = \<lparr>aws = 8.5, gcp = 9.0\<rparr> \<and>
   calculate_performance_score ''aws'' ''gcp'' [''type'' \<mapsto> ''data_intensive'']
     = \<lparr>aws = 9.2, gcp = 8.8\<rparr> \<and>
   calculate_performance_score ''aws'' ''gcp'' [''type'' \<mapsto> ''general'']
     = \<lparr>aws = 8.8, gcp = 8.9\<rparr> \<and>
   calculate_performance_score ''aws'' ''gcp'' [''type'' \<mapsto> ''gpu_rendering'']
     = \<lparr>aws = 8.8, gcp = 8.9\<rparr> \<and>
   calculate_performance_score ''aws'' ''gcp'' Map.empty = \<lparr>aws = 8.8, gcp = 8.9\<rparr>"
  using performance_score_branches [of "''aws''" "''gcp''" "[''type'' \<mapsto> ''compute_intensive'']"]
        performance_score_branches [of "''aws''" "''gcp''" "[''type'' \<mapsto> ''data_intensive'']"]
        performance_score_branches [of "''aws''" "''gcp''" "[''type'' \<mapsto> ''general'']"]
        performance_score_branches [of "''aws''" "''gcp''" "[''type'' \<mapsto> ''gpu_rendering'']"]
        performance_score_branches [of "''aws''" "''gcp''" Map.empty]
  by simp

text \<open>
  C7. For either winner the reasons are, in the order cost, performance, scalability, the
  reason of each criterion in which the winner's score is strictly greater than the
  loser's; the list has at most three entries; the three reason strings differ. Inside
  the compute comparison the list is computed from the winner and the cost, performance
  and scalability scores only. A winner name other than \<open>aws\<close> and \<open>gcp\<close>
  raises \<open>KeyError\<close>.
\<close>

theorem primary_reasons_order:
  "get_primary_reasons ''aws'' cost_score performance_score sscore =
     Inr ((if aws cost_score > gcp cost_score then [reason_cost] else []) @
          (if aws performance_score > gcp performance_score then [reason_performance] else []) @
          (if aws sscore > gcp sscore then [reason_scalability] else [])) \<and>
   get_primary_reasons ''gcp'' cost_score performance_score sscore =
     Inr ((if gcp cost_score > aws cost_score then [reason_cost] else []) @
          (if gcp performance_score > aws performance_score then [reason_performance] else []) @
          (if gcp sscore > aws sscore then [reason_scalability] else [])) \<and>
   (case get_primary_reasons w cost_score performance_score sscore of
      Inr reasons \<Rightarrow> length reasons \<le> 3
    | Inl e \<Rightarrow> e = KeyError \<and> w \<noteq> ''aws'' \<and> w \<noteq> ''gcp'') \<and>
   distinct [reason_cost, reason_performance, reason_scalability] \<and>
   (case compare_compute_instances aws_data gcp_data workload_requirements of
      Inr r \<Rightarrow>
        get_primary_reasons (winner (recommendation r))
          \<lparr>aws = cost (aws (scores r)), gcp = cost (gcp (scores r))\<rparr>
          \<lparr>aws = performance (aws (scores r)), gcp = performance (gcp (scores r))\<rparr>
          \<lparr>aws = scalability (aws (scores r)), gcp = scalability (gcp (scores r))\<rparr>
        = Inr (primary_reasons (recommendation r)) \<and>
        length (primary_reasons (recommendation r)) \<le> 3
    | Inl e \<Rightarrow> e = ZeroDivisionError)"
proof -
  have len: "case get_primary_reasons w cost_score performance_score sscore of
      Inr reasons \<Rightarrow> length reasons \<le> 3
    | Inl e \<Rightarrow> e = KeyError \<and> w \<noteq> ''aws'' \<and> w \<noteq> ''gcp''" for w cost_score performance_score sscore
  proof -
    consider "w = ''aws''" | "w = ''gcp''" | "w \<noteq> ''aws''" "w \<noteq> ''gcp''"
      by blast
    then show ?thesis
    proof cases
      case 1 then show ?thesis by (simp add: get_primary_reasons_aws)
    next
      case 2 then show ?thesis by (simp add: get_primary_reasons_gcp)
    next
      case 3 then show ?thesis by (simp add: get_primary_reasons_KeyError)
    qed
  qed
  have cmp: "case compare_compute_instances aws_data gcp_data workload_requirements of
      Inr r \<Rightarrow>
        get_primary_reasons (winner (recommendation r))
          \<lparr>aws = cost (aws (scores r)), gcp = cost (gcp (scores r))\<rparr>
          \<lparr>aws = performance (aws (scores r)), gcp = performance (gcp (scores r))\<rparr>
          \<lparr>aws = scalability (aws (scores r)), gcp = scalability (gcp (scores r))\<rparr>
        = Inr (primary_reasons (recommendation r)) \<and>
        length (primary_reasons (recommendation r)) \<le> 3
    | Inl e \<Rightarrow> e = ZeroDivisionError"
  proof (cases "compare_compute_instances aws_data gcp_data workload_requirements")
    case (Inl e)
    have "max (get_or (price_per_month aws_data) 0) (get_or (price_per_month gcp_data) 0) = 0"
    proof (rule ccontr)
      assume "max (get_or (price_per_month aws_data) 0) (get_or (price_per_month gcp_data) 0) \<noteq> 0"
      from compare_compute_instances_result [OF this, of workload_requirements] Inl
      show False by auto
    qed
    from compare_compute_instances_raises [OF this, of workload_requirements] Inl
    show ?thesis by simp
  next
    case (Inr r)
    note g = compare_compute_instances_reasons [OF Inr]
    from len [of "winner (recommendation r)"
          "\<lparr>aws = cost (aws (scores r)), gcp = cost (gcp (scores r))\<rparr>"
          "\<lparr>aws = performance (aws (scores r)), gcp = performance (gcp (scores r))\<rparr>"
          "\<lparr>aws = scalability (aws (scores r)), gcp = scalability (gcp (scores r))\<rparr>"] g
    have "length (primary_reasons (recommendation r)) \<le> 3" by simp
    with g Inr show ?thesis by simp
  qed
  show ?thesis
    using get_primary_reasons_aws [of cost_score performance_score sscore]
          get_primary_reasons_gcp [of cost_score performance_score sscore]
          len [of w cost_score performance_score sscore] reasons_distinct cmp
    by blast
qed

theorem primary_reasons_order_witness:
  "get_primary_reasons ''aws'' \<lparr>aws = 6, gcp = 4\<rparr> \<lparr>aws = 8.8, gcp = 8.9\<rparr> \<lparr>aws = 9.5, gcp = 9.3\<rparr>
     = Inr [reason_cost, reason_scalability] \<and>
   get_primary_reasons ''gcp'' \<lparr>aws = 4, gcp = 6\<rparr> \<lparr>aws = 8.5, gcp = 9.0\<rparr> \<lparr>aws = 9.3, gcp = 9.5\<rparr>
     = Inr [reason_cost, reason_performance, reason_scalability] \<and>
   get_primary_reasons ''gcp'' \<lparr>aws = 5, gcp = 5\<rparr> \<lparr>aws = 9.2, gcp = 8.8\<rparr> \<lparr>aws = 9.5, gcp = 9.3\<rparr>
     = Inr []"
  using primary_reasons_order [of "\<lparr>aws = 6, gcp = 4\<rparr>" "\<lparr>aws = 8.8, gcp = 8.9\<rparr>" "\<lparr>aws = 9.5, gcp = 9.3\<rparr>"]
        primary_reasons_order [of "\<lparr>aws = 4, gcp = 6\<rparr>" "\<lparr>aws = 8.5, gcp = 9.0\<rparr>" "\<lparr>aws = 9.3, gcp = 9.5\<rparr>"]
        primary_reasons_order [of "\<lparr>aws = 5, gcp = 5\<rparr>" "\<lparr>aws = 9.2, gcp = 8.8\<rparr>" "\<lparr>aws = 9.5, gcp = 9.3\<rparr>"]
  by simp

text \<open>
  C8. A storage type outside the seven keys of the table gives the empty descriptor, and
  the analysis returns for every pair of types. The availability entry is
  \<open>AWS superior\<close> exactly when the AWS availability string, \<open>0%\<close> when absent,
  is greater than the GCP one in the lexicographic order of code points, and
  \<open>GCP superior\<close> otherwise.
\<close>

theorem storage_analysis_lookup:
  "(aws_type \<notin> {''s3_standard'', ''s3_ia'', ''s3_glacier'', ''standard'', ''nearline'',
                 ''coldline'', ''archive''} \<longrightarrow>
      aws_characteristics (analyze_storage_characteristics aws_type gcp_type) = Map.empty) \<and>
   (gcp_type \<notin> {''s3_standard'', ''s3_ia'', ''s3_glacier'', ''standard'', ''nearline'',
                 ''coldline'', ''archive''} \<longrightarrow>
      gcp_characteristics (analyze_storage_characteristics aws_type gcp_type) = Map.empty) \<and>
   availability (comparison (analyze_storage_characteristics aws_type gcp_type)) =
     (if (get_or (gcp_characteristics (analyze_storage_characteristics aws_type gcp_type)
                    ''availability'') ''0%'',
          get_or (aws_characteristics (analyze_storage_characteristics aws_type gcp_type)
                    ''availability'') ''0%'')
           \<in> lexord {(c, d). of_char c < (of_char d :: nat)}
      then ''AWS superior'' else ''GCP superior'')"
  by (simp add: analyze_storage_characteristics_def Let_def storage_characteristics_unknown
        get_or_def string_less_lexord [symmetric])

theorem storage_analysis_lookup_witness:
  "''unknown'' \<notin> {''s3_standard'', ''s3_ia'', ''s3_glacier'', ''standard'', ''nearline'',
                 ''coldline'', ''archive''} \<and>
   ''other'' \<notin> {''s3_standard'', ''s3_ia'', ''s3_glacier'', ''standard'', ''nearline'',
                 ''coldline'', ''archive''} \<and>
   aws_characteristics (analyze_storage_characteristics ''unknown'' ''other'') = Map.empty \<and>
   gcp_characteristics (analyze_storage_characteristics ''unknown'' ''other'') = Map.empty \<and>
   availability (comparison (analyze_storage_characteristics ''unknown'' ''other''))
     = ''GCP superior'' \<and>
   availability (comparison (analyze_storage_characteristics ''s3_glacier'' ''standard''))
     = ''AWS superior'' \<and>
   availability (comparison (analyze_storage_characteristics ''s3_ia'' ''standard''))
     = ''GCP superior''"
proof -
  have e: "get_or (aws_characteristics (analyze_storage_characteristics ''s3_glacier'' ''standard'')
             ''availability'') ''0%'' = ''N/A''"
    "get_or (gcp_characteristics (analyze_storage_characteristics ''s3_glacier'' ''standard'')
             ''availability'') ''0%'' = ''99.95%''"
    "get_or (aws_characteristics (analyze_storage_characteristics ''s3_ia'' ''standard'')
             ''availability'') ''0%'' = ''99.9%''"
    "get_or (gcp_characteristics (analyze_storage_characteristics ''s3_ia'' ''standard'')
             ''availability'') ''0%'' = ''99.95%''"
    "get_or (aws_characteristics (analyze_storage_characteristics ''unknown'' ''other'')
             ''availability'') ''0%'' = ''0%''"
    "get_or (gcp_characteristics (analyze_storage_characteristics ''unknown'' ''other'')
             ''availability'') ''0%'' = ''0%''"
    by (simp_all add: analyze_storage_characteristics_def Let_def storage_characteristics_def
          get_or_def)
  show ?thesis
    using storage_analysis_lookup [of "''unknown''" "''other''"]
          storage_analysis_lookup [of "''s3_glacier''" "''standard''"]
          storage_analysis_lookup [of "''s3_ia''" "''standard''"]
    by (simp add: e)
qed

text \<open>
  C9. The complexity is the number of words of the description over 10; the level is Low
  below 2, Medium from 2 to below 5 and High from 5 on; the base cost is 5000, 15000 and
  35000 for the three levels; the estimated cost is the base cost times 0.7 for
  \<open>tight\<close>, 1.0 for \<open>moderate\<close>, 1.3 for \<open>flexible\<close> and 1.0 for any other
  budget value.
\<close>

theorem migration_estimate_buckets:
  "complexity_score (generate_migration_recommendation workload_description budget_constraints)
     = real (length (split workload_description)) / 10 \<and>
   complexity_level (generate_migration_recommendation workload_description budget_constraints)
     = (if real (length (split workload_description)) / 10 < 2 then Baixa
        else if real (length (split workload_description)) / 10 < 5 then Media else Alta) \<and>
   base_cost (generate_migration_recommendation workload_description budget_constraints)
     = (if real (length (split workload_description)) / 10 < 2 then 5000
        else if real (length (split workload_description)) / 10 < 5 then 15000 else 35000) \<and>
   estimated_cost (generate_migration_recommendation workload_description budget_constraints)
     = base_cost (generate_migration_recommendation workload_description budget_constraints)
       * (if budget_constraints = ''tight'' then 0.7
          else if budget_constraints = ''moderate'' then 1.0
          else if budget_constraints = ''flexible'' then 1.3 else 1.0) \<and>
   distinct [Baixa, Media, Alta]"
  unfolding migration_fields budget_multipliers_get
  using levels_distinct by simp

theorem migration_estimate_buckets_witness:
  "length (split ''move the order service its queue workers and the nightly report jobs from one region to another with no downtime for any of our customers'') = 25 \<and>
   complexity_score (generate_migration_recommendation
      ''move the order service its queue workers and the nightly report jobs from one region to another with no downtime for any of our customers''
      ''tight'') = 2.5 \<and>
   complexity_level (generate_migration_recommendation
      ''move the order service its queue workers and the nightly report jobs from one region to another with no downtime for any of our customers''
      ''tight'') = Media \<and>
   estimated_cost (generate_migration_recommendation
      ''move the order service its queue workers and the nightly report jobs from one region to another with no downtime for any of our customers''
      ''tight'') = 10500"
proof -
  have n: "length (split ''move the order service its queue workers and the nightly report jobs from one region to another with no downtime for any of our customers'') = 25"
    by (simp add: split_def isspace_def)
  show ?thesis
    using migration_estimate_buckets [of
      "''move the order service its queue workers and the nightly report jobs from one region to another with no downtime for any of our customers''"
      "''tight''"]
    by (simp add: n)
qed

text \<open>
  C10. With equal costs, two zero costs included, the savings provider is said to be
  \<open>gcp\<close> and the difference 0. Evaluated at two zero costs (for the cost of
  ownership, at costs that are all zero), none of the three operations returns a result:
  each raises \<open>ZeroDivisionError\<close> at the division by the larger cost.
\<close>

theorem savings_provider_zero_tie_raises:
  "compare_compute_instances
     \<lparr>price_per_month = Some 0, instance_type = Some ''t3.medium'', machine_type = None\<rparr>
     \<lparr>price_per_month = Some 0, instance_type = None, machine_type = Some ''e2-medium''\<rparr>
     [''type'' \<mapsto> ''general''] = Inl ZeroDivisionError \<and>
   compare_storage_options
     \<lparr>price_per_gb_month = Some 0, storage_type = Some ''s3_standard''\<rparr>
     \<lparr>price_per_gb_month = Some 0, storage_type = Some ''standard''\<rparr> = Inl ZeroDivisionError \<and>
   calculate_tco [''aws'' \<mapsto> 0, ''gcp'' \<mapsto> 0] [''aws'' \<mapsto> 0, ''gcp'' \<mapsto> 0]
     [''aws'' \<mapsto> 0, ''gcp'' \<mapsto> 0] 36 = Inl ZeroDivisionError"
  by (simp add: compare_compute_instances_def compare_storage_options_def calculate_tco_def
        get_or_def py_truediv_def Let_def)

text \<open>
  Equal costs that are not zero: whenever the two costs (for the cost of ownership, the
  two totals) are equal and not zero, the operation returns, the savings provider is
  \<open>gcp\<close> and the cost difference (the savings) is 0.
\<close>

theorem savings_provider_tie:
  "(get_or (price_per_month aws_data) 0 = get_or (price_per_month gcp_data) 0 \<and>
    get_or (price_per_month aws_data) 0 \<noteq> 0 \<longrightarrow>
      (\<exists>r. compare_compute_instances aws_data gcp_data wr = Inr r \<and>
           cost_savings_provider r = ''gcp'' \<and> cost_difference r = 0)) \<and>
   (get_or (price_per_gb_month aws_storage_data) 0 = get_or (price_per_gb_month gcp_storage_data) 0 \<and>
    get_or (price_per_gb_month aws_storage_data) 0 \<noteq> 0 \<longrightarrow>
      (\<exists>r. compare_storage_options aws_storage_data gcp_storage_data = Inr r \<and>
           cost_savings_provider r = ''gcp'' \<and> cost_difference r = 0)) \<and>
   ((get_or (cc ''aws'') 0 + get_or (sc ''aws'') 0 + get_or (ad ''aws'') 0
        + (get_or (cc ''aws'') 0 + get_or (sc ''aws'') 0) * 0.15) * of_int h
      = (get_or (cc ''gcp'') 0 + get_or (sc ''gcp'') 0 + get_or (ad ''gcp'') 0
        + (get_or (cc ''gcp'') 0 + get_or (sc ''gcp'') 0) * 0.12) * of_int h \<and>
    (get_or (cc ''aws'') 0 + get_or (sc ''aws'') 0 + get_or (ad ''aws'') 0
        + (get_or (cc ''aws'') 0 + get_or (sc ''aws'') 0) * 0.15) * of_int h \<noteq> 0 \<longrightarrow>
      (\<exists>r. calculate_tco cc sc ad h = Inr r \<and> aws_tco r = gcp_tco r \<and>
           savings_provider r = ''gcp'' \<and> savings r = 0))"
proof -
  have c: "\<exists>r. compare_compute_instances aws_data gcp_data wr = Inr r \<and>
           cost_savings_provider r = ''gcp'' \<and> cost_difference r = 0"
    if eq: "get_or (price_per_month aws_data) 0 = get_or (price_per_month gcp_data) 0"
      and nz: "get_or (price_per_month aws_data) 0 \<noteq> 0"
  proof -
    from eq nz have m: "max (get_or (price_per_month aws_data) 0)
        (get_or (price_per_month gcp_data) 0) \<noteq> 0" by simp
    from compare_compute_instances_result [OF m, of wr] eq show ?thesis
      by (auto simp: Let_def)
  qed
  have s: "\<exists>r. compare_storage_options aws_storage_data gcp_storage_data = Inr r \<and>
           cost_savings_provider r = ''gcp'' \<and> cost_difference r = 0"
    if eq: "get_or (price_per_gb_month aws_storage_data) 0 = get_or (price_per_gb_month gcp_storage_data) 0"
      and nz: "get_or (price_per_gb_month aws_storage_data) 0 \<noteq> 0"
  proof -
    from eq nz have m: "max (get_or (price_per_gb_month aws_storage_data) 0)
        (get_or (price_per_gb_month gcp_storage_data) 0) \<noteq> 0" by simp
    from compare_storage_options_result [OF m] eq show ?thesis
      by (simp add: Let_def)
  qed
  have t: "\<exists>r. calculate_tco cc sc ad h = Inr r \<and> aws_tco r = gcp_tco r \<and>
           savings_provider r = ''gcp'' \<and> savings r = 0"
    if eq: "(get_or (cc ''aws'') 0 + get_or (sc ''aws'') 0 + get_or (ad ''aws'') 0
        + (get_or (cc ''aws'') 0 + get_or (sc ''aws'') 0) * 0.15) * of_int h
      = (get_or (cc ''gcp'') 0 + get_or (sc ''gcp'') 0 + get_or (ad ''gcp'') 0
        + (get_or (cc ''gcp'') 0 + get_or (sc ''gcp'') 0) * 0.12) * of_int h"
      and nz: "(get_or (cc ''aws'') 0 + get_or (sc ''aws'') 0 + get_or (ad ''aws'') 0
        + (get_or (cc ''aws'') 0 + get_or (sc ''aws'') 0) * 0.15) * of_int h \<noteq> 0"
  proof -
    from eq nz have m: "max ((get_or (cc ''aws'') 0 + get_or (sc ''aws'') 0 + get_or (ad ''aws'') 0
                      + (get_or (cc ''aws'') 0 + get_or (sc ''aws'') 0) * 0.15) * of_int h)
                   ((get_or (cc ''gcp'') 0 + get_or (sc ''gcp'') 0 + get_or (ad ''gcp'') 0
                      + (get_or (cc ''gcp'') 0 + get_or (sc ''gcp'') 0) * 0.12) * of_int h) \<noteq> 0"
      by (metis max.idem)
    from calculate_tco_fields [OF m] obtain r where
      r: "calculate_tco cc sc ad h = Inr r"
      and a: "aws_tco r = (get_or (cc ''aws'') 0 + get_or (sc ''aws'') 0 + get_or (ad ''aws'') 0
                      + (get_or (cc ''aws'') 0 + get_or (sc ''aws'') 0) * 0.15) * of_int h"
      and g: "gcp_tco r = (get_or (cc ''gcp'') 0 + get_or (sc ''gcp'') 0 + get_or (ad ''gcp'') 0
                      + (get_or (cc ''gcp'') 0 + get_or (sc ''gcp'') 0) * 0.12) * of_int h"
      and sv: "savings r = \<bar>aws_tco r - gcp_tco r\<bar>"
      and sp: "savings_provider r = (if aws_tco r < gcp_tco r then ''aws'' else ''gcp'')"
      by blast
    from a g eq have e: "aws_tco r = gcp_tco r" by (simp only:)
    from sv sp e have "savings r = 0" "savings_provider r = ''gcp''" by simp_all
    with r e show ?thesis by blast
  qed
  show ?thesis using c s t by blast
qed

theorem savings_provider_tie_witness:
  "(\<exists>r. compare_compute_instances
          \<lparr>price_per_month = Some 100, instance_type = None, machine_type = None\<rparr>
          \<lparr>price_per_month = Some 100, instance_type = None, machine_type = None\<rparr>
          Map.empty = Inr r \<and> cost_savings_provider r = ''gcp'' \<and> cost_difference r = 0) \<and>
   (\<exists>r. compare_storage_options
          \<lparr>price_per_gb_month = Some 0.02, storage_type = None\<rparr>
          \<lparr>price_per_gb_month = Some 0.02, storage_type = None\<rparr> = Inr r \<and>
        cost_savings_provider r = ''gcp'' \<and> cost_difference r = 0) \<and>
   (\<exists>r. calculate_tco [''aws'' \<mapsto> 112, ''gcp'' \<mapsto> 115] Map.empty Map.empty 36 = Inr r \<and>
        aws_tco r = gcp_tco r \<and> savings_provider r = ''gcp'' \<and> savings r = 0)"
  using savings_provider_tie
    [of "\<lparr>price_per_month = Some 100, instance_type = None, machine_type = None\<rparr>"
        "\<lparr>price_per_month = Some 100, instance_type = None, machine_type = None\<rparr>"
        Map.empty
        "\<lparr>price_per_gb_month = Some 0.02, storage_type = None\<rparr>"
        "\<lparr>price_per_gb_month = Some 0.02, storage_type = None\<rparr>"
        "[''aws'' \<mapsto> 112, ''gcp'' \<mapsto> 115]" Map.empty Map.empty 36]
  by (simp add: get_or_def)

end
